theory Spec2Isabelle
  imports Main
begin

section \<open>The sidebar navigation tree\<close>

text \<open>
  The sidebar module exports one object with the single key \<open>apiSidebar\<close>, an array of
  two category objects. Each category has a \<open>type\<close>, a \<open>label\<close>, two booleans, a
  \<open>link\<close> object and an array \<open>items\<close> of page identifiers (plain strings).
\<close>

record sidebar_link =
  link_type :: string
  title :: string
  slug :: string

record sidebar_category =
  type :: string
  label :: string
  collapsible :: bool
  collapsed :: bool
  link :: sidebar_link
  items :: "string list"

definition apiSidebar :: "sidebar_category list" where
  "apiSidebar =
    [ \<lparr> type = ''category'',
        label = ''Introduction'',
        collapsible = True,
        collapsed = False,
        link = \<lparr> link_type = ''generated-index'', title = ''Introduction'', slug = ''/'' \<rparr>,
        items =
          [ ''goals'',
            ''anti-goals'',
            ''json-rpc'',
            ''pagination'',
            ''outstanding-questions'' ] \<rparr>,
      \<lparr> type = ''category'',
        label = ''Request/Response Methods'',
        collapsible = True,
        collapsed = False,
        link = \<lparr> link_type = ''generated-index'', title = ''Request/Response Methods'',
                 slug = ''methods'' \<rparr>,
        items =
          [ ''methods/getAccount'',
            ''methods/getHealth'',
            ''methods/getLatestLedger'',
            ''methods/getLedgerEntry'',
            ''methods/getContractData'',
            ''methods/getEvents'',
            ''methods/getNetwork'',
            ''methods/getTransactionStatus'',
            ''methods/requestAirdrop'',
            ''methods/sendTransaction'',
            ''methods/simulateTransaction'' ] \<rparr> ]"

text \<open>All page identifiers of the tree, in document order.\<close>

definition page_ids :: "sidebar_category list \<Rightarrow> string list" where
  "page_ids tree = concat (map items tree)"

section \<open>The reader-feedback widget\<close>

subsection \<open>JavaScript values and the browser environment\<close>

text \<open>
  The handler reads two things from the global scope: the property \<open>window.ga\<close> and the
  free identifier \<open>label\<close>, which the module neither imports nor declares. Reading a
  missing property gives \<open>undefined\<close>; reading an identifier with no binding throws a
  \<open>ReferenceError\<close>. The test \<open>if (window.ga)\<close> is JavaScript's truthiness.
\<close>

datatype jsval =
    JUndefined
  | JNull
  | JBool bool
  | JNum int
  | JStr string
  | JFunction

fun truthy :: "jsval \<Rightarrow> bool" where
  "truthy JUndefined = False"
| "truthy JNull = False"
| "truthy (JBool b) = b"
| "truthy (JNum n) = (n \<noteq> 0)"
| "truthy (JStr s) = (s \<noteq> [])"
| "truthy JFunction = True"

datatype js_error =
    ReferenceError string
  | TypeError string

text \<open>The object literal passed as second argument to the hook.\<close>

record ga_event =
  hitType :: string
  eventCategory :: string
  eventAction :: string
  eventLabel :: jsval
  eventValue :: jsval

text \<open>
  The browser side of a page: the value of \<open>window.ga\<close>, the global binding of the
  identifier \<open>label\<close> (\<open>None\<close> when there is none), and the calls the analytics hook has
  received so far, oldest first. The hook itself is external to the repository; a
  function value stored in \<open>window.ga\<close> is taken to record its two arguments and return.
\<close>

record browser =
  window_ga :: jsval
  global_label :: "jsval option"
  ga_calls :: "(string \<times> ga_event) list"

subsection \<open>The click handler\<close>

text \<open>
  \<open>giveFeedback value\<close>: when \<open>window.ga\<close> is truthy, the arguments of the call are
  evaluated left to right (the string, then the object literal, whose fourth property reads
  \<open>label\<close>), and only then is the callee applied, which fails with a \<open>TypeError\<close> when it is
  not a function. After the \<open>if\<close>, \<open>setFeedbackGiven(true)\<close> runs. The result is the new
  browser side and the value handed to the state setter; an exception leaves the handler
  before the setter is reached.
\<close>

definition giveFeedback :: "jsval \<Rightarrow> browser \<Rightarrow> js_error + (browser \<times> bool)" where
  "giveFeedback v b =
    (if truthy (window_ga b) then
       (case global_label b of
          None \<Rightarrow> Inl (ReferenceError ''label is not defined'')
        | Some l \<Rightarrow>
            (if window_ga b = JFunction then
               Inr (b\<lparr> ga_calls := ga_calls b @
                        [(''send'',
                          \<lparr> hitType = ''event'',
                            eventCategory = ''button'',
                            eventAction = ''feedback'',
                            eventLabel = l,
                            eventValue = v \<rparr>)] \<rparr>,
                    True)
             else Inl (TypeError ''window.ga is not a function'')))
     else Inr (b, True))"

subsection \<open>Rendering\<close>

text \<open>
  The rendered tree: \<open>null\<close>, or a \<open>div\<close> with a class name and children. A child is a
  text node or one of the two icons; an icon carries its class name and the argument its
  \<open>onClick\<close> closure passes to \<open>giveFeedback\<close>.
\<close>

datatype control = IconThumbsUp | IconThumbsDown

datatype element =
    Text string
  | Icon control string jsval

datatype view =
    RenderNull
  | Div string "element list"

text \<open>
  \<open>useState init\<close> on a hook slot: the initial value on the first call of a mount, the
  stored value afterwards.
\<close>

definition useState :: "bool \<Rightarrow> bool option \<Rightarrow> bool" where
  "useState init slot = (case slot of None \<Rightarrow> init | Some s \<Rightarrow> s)"

text \<open>
  The component function. Its inputs are the \<open>pageId\<close> prop, the result of
  \<open>useIsBrowser()\<close> and the state slot of the mount; it returns the rendered tree and the
  slot after the call. Outside a browser it returns before \<open>useState\<close> is called: the
  render has used no state hook, so the mount keeps no hook state and the slot is empty
  afterwards, whatever it held before.
\<close>

definition ReaderFeedback :: "jsval \<Rightarrow> bool \<Rightarrow> bool option \<Rightarrow> view \<times> bool option" where
  "ReaderFeedback pageId isBrowser slot =
    (if \<not> isBrowser then (RenderNull, None)
     else
       (let feedbackGiven = useState False slot in
        (Div ''readerFeedback''
           (if feedbackGiven then [Text ''Thanks for your feedback!'']
            else [ Text ''Did you find this page helpful?'',
                   Icon IconThumbsUp ''feedback_thumbsup'' (JNum 1),
                   Icon IconThumbsDown ''feedback_thumbsdown'' (JNum 0) ]),
         Some feedbackGiven)))"

subsection \<open>A mounted widget and what can happen to it\<close>

text \<open>
  A mounted widget: its current prop, whether it runs in a browser, the state slot, what
  is on screen, the browser side, and the exceptions that escaped an event handler.
\<close>

record mounted =
  pageId :: jsval
  isBrowser :: bool
  slot :: "bool option"
  screen :: view
  env :: browser
  uncaught :: "js_error list"

definition render :: "mounted \<Rightarrow> mounted" where
  "render m =
    (let (v, s) = ReaderFeedback (pageId m) (isBrowser m) (slot m)
     in m\<lparr> screen := v, slot := s \<rparr>)"

text \<open>A fresh mount starts with an empty slot and renders once.\<close>

definition mount :: "jsval \<Rightarrow> bool \<Rightarrow> browser \<Rightarrow> mounted" where
  "mount p ib b =
    render \<lparr> pageId = p, isBrowser = ib, slot = None, screen = RenderNull, env = b,
             uncaught = [] \<rparr>"

text \<open>The handler argument of a control, when that control is on screen.\<close>

fun handler_of :: "control \<Rightarrow> element list \<Rightarrow> jsval option" where
  "handler_of c [] = None"
| "handler_of c (Text t # es) = handler_of c es"
| "handler_of c (Icon c' cls v # es) = (if c' = c then Some v else handler_of c es)"

fun on_screen :: "control \<Rightarrow> view \<Rightarrow> jsval option" where
  "on_screen c RenderNull = None"
| "on_screen c (Div cls es) = handler_of c es"

datatype action =
    Click control
  | Rerender jsval
  | Remount jsval

text \<open>
  One action on a mounted widget. A click needs the control to be on screen, otherwise
  the action cannot happen (\<open>None\<close>). A handler that returns stores the new state and the
  widget renders again; a handler that throws changes nothing but the list of uncaught
  exceptions. \<open>Rerender\<close> is a render with a new prop in the same mount, \<open>Remount\<close>
  discards the slot first.
\<close>

fun dispatch :: "action \<Rightarrow> mounted \<Rightarrow> mounted option" where
  "dispatch (Click c) m =
    (case on_screen c (screen m) of
       None \<Rightarrow> None
     | Some v \<Rightarrow>
        (case giveFeedback v (env m) of
           Inl e \<Rightarrow> Some (m\<lparr> uncaught := uncaught m @ [e] \<rparr>)
         | Inr (b, s) \<Rightarrow> Some (render (m\<lparr> env := b, slot := Some s \<rparr>))))"
| "dispatch (Rerender p) m = Some (render (m\<lparr> pageId := p \<rparr>))"
| "dispatch (Remount p) m = Some (render (m\<lparr> pageId := p, slot := None \<rparr>))"

text \<open>A sequence of actions, stopping with \<open>None\<close> at one that cannot happen.\<close>

fun run :: "action list \<Rightarrow> mounted \<Rightarrow> mounted option" where
  "run [] m = Some m"
| "run (a # as) m = (case dispatch a m of None \<Rightarrow> None | Some m' \<Rightarrow> run as m')"

text \<open>The two things the component can show in a browser.\<close>

definition question_view :: view where
  "question_view =
    Div ''readerFeedback''
      [ Text ''Did you find this page helpful?'',
        Icon IconThumbsUp ''feedback_thumbsup'' (JNum 1),
        Icon IconThumbsDown ''feedback_thumbsdown'' (JNum 0) ]"

definition thanks_view :: view where
  "thanks_view = Div ''readerFeedback'' [Text ''Thanks for your feedback!'']"

subsection \<open>Vocabulary for the properties\<close>

text \<open>A sequence of actions stays within one mount when it has no \<open>Remount\<close>.\<close>

fun no_remount :: "action list \<Rightarrow> bool" where
  "no_remount [] = True"
| "no_remount (Remount p # as) = False"
| "no_remount (a # as) = no_remount as"

text \<open>The same user action, with the prop of a render replaced by \<open>p\<close>.\<close>

fun with_pageId :: "jsval \<Rightarrow> action \<Rightarrow> action" where
  "with_pageId p (Click c) = Click c"
| "with_pageId p (Rerender q) = Rerender p"
| "with_pageId p (Remount q) = Remount p"

text \<open>Everything of a mounted widget except the prop itself.\<close>

definition observe :: "mounted \<Rightarrow> bool \<times> bool option \<times> view \<times> browser \<times> js_error list" where
  "observe m = (isBrowser m, slot m, screen m, env m, uncaught m)"



section \<open>The sidebar: properties\<close>

text \<open>
  C5. The page identifiers listed under all categories of the exported sidebar tree are
  pairwise distinct.
\<close>

theorem apiSidebar_ids_distinct: "distinct (page_ids apiSidebar)"
  by (simp add: page_ids_def apiSidebar_def)

text \<open>
  C6. The sidebar configuration is a fixed value: exactly two categories, in the order
  'Introduction', 'Request/Response Methods', with five and eleven page identifiers in the
  listed order.
\<close>

theorem apiSidebar_fixed_value:
  "map label apiSidebar = [''Introduction'', ''Request/Response Methods''] \<and>
   map (\<lambda>c. length (items c)) apiSidebar = [5, 11] \<and>
   map items apiSidebar =
     [ [''goals'', ''anti-goals'', ''json-rpc'', ''pagination'', ''outstanding-questions''],
       [''methods/getAccount'', ''methods/getHealth'', ''methods/getLatestLedger'',
        ''methods/getLedgerEntry'', ''methods/getContractData'', ''methods/getEvents'',
        ''methods/getNetwork'', ''methods/getTransactionStatus'', ''methods/requestAirdrop'',
        ''methods/sendTransaction'', ''methods/simulateTransaction''] ]"
  by (simp add: apiSidebar_def)

section \<open>The widget: one render\<close>

lemma ReaderFeedback_browser:
  "ReaderFeedback p True s =
     (if useState False s then thanks_view else question_view, Some (useState False s))"
  by (simp add: ReaderFeedback_def thanks_view_def question_view_def Let_def)

lemma ReaderFeedback_server: "ReaderFeedback p False s = (RenderNull, None)"
  by (simp add: ReaderFeedback_def)

lemma render_browser:
  "isBrowser m \<Longrightarrow>
   render m = m\<lparr> screen := (if useState False (slot m) then thanks_view else question_view),
                  slot := Some (useState False (slot m)) \<rparr>"
  by (simp add: render_def ReaderFeedback_browser)

lemma render_server:
  "\<not> isBrowser m \<Longrightarrow> render m = m\<lparr> screen := RenderNull, slot := None \<rparr>"
  by (simp add: render_def ReaderFeedback_server)

lemma on_screen_question:
  "on_screen c question_view = Some (case c of IconThumbsUp \<Rightarrow> JNum 1 | IconThumbsDown \<Rightarrow> JNum 0)"
  by (cases c) (simp_all add: question_view_def)

lemma on_screen_thanks: "on_screen c thanks_view = None"
  by (simp add: thanks_view_def)

lemma giveFeedback_skips:
  "\<not> truthy (window_ga b) \<Longrightarrow> giveFeedback v b = Inr (b, True)"
  by (simp add: giveFeedback_def)

text \<open>
  C3. When \<open>window.ga\<close> is absent (or otherwise falsy), a click on either control of the
  question does not throw: the handler returns, the hook's call list and the list of
  uncaught exceptions are unchanged, and the widget shows the thanks message.
\<close>

theorem click_without_ga:
  assumes "isBrowser m" and "screen m = question_view" and "\<not> truthy (window_ga (env m))"
  shows "dispatch (Click c) m = Some (m\<lparr> slot := Some True, screen := thanks_view \<rparr>)"
proof -
  obtain v where v: "on_screen c (screen m) = Some v"
    using assms(2) on_screen_question by simp
  have "giveFeedback v (env m) = Inr (env m, True)"
    using assms(3) by (rule giveFeedback_skips)
  with v have "dispatch (Click c) m = Some (render (m\<lparr> env := env m, slot := Some True \<rparr>))"
    by simp
  also have "render (m\<lparr> env := env m, slot := Some True \<rparr>) =
             m\<lparr> slot := Some True, screen := thanks_view \<rparr>"
    using assms(1) by (simp add: render_browser useState_def)
  finally show ?thesis .
qed

theorem click_without_ga_witness:
  "dispatch (Click IconThumbsDown)
     (mount (JStr ''goals'') True \<lparr> window_ga = JUndefined, global_label = None, ga_calls = [] \<rparr>) =
   Some \<lparr> pageId = JStr ''goals'', isBrowser = True, slot = Some True, screen = thanks_view,
          env = \<lparr> window_ga = JUndefined, global_label = None, ga_calls = [] \<rparr>,
          uncaught = [] \<rparr>"
  using click_without_ga [of "mount (JStr ''goals'') True
      \<lparr> window_ga = JUndefined, global_label = None, ga_calls = [] \<rparr>" IconThumbsDown]
  by (simp add: mount_def render_browser useState_def)


section \<open>The widget: a click while the analytics hook is present\<close>

text \<open>
  With a function in \<open>window.ga\<close> and a global binding of \<open>label\<close>, the handler hands
  the hook one event of the five-field shape and then sets the flag.
\<close>

lemma giveFeedback_sends_one:
  assumes "window_ga b = JFunction" and "global_label b = Some l"
  shows "giveFeedback v b =
    Inr (b\<lparr> ga_calls := ga_calls b @
              [(''send'', \<lparr> hitType = ''event'', eventCategory = ''button'',
                            eventAction = ''feedback'', eventLabel = l, eventValue = v \<rparr>)] \<rparr>,
         True)"
  using assms by (simp add: giveFeedback_def)

text \<open>
  C1. Claimed: every click on a control of the question completes, sets the flag and
  fires one event whether or not \<open>window.ga\<close> is present. With the hook present and no
  global binding of \<open>label\<close>, the click leaves the widget as it was (flag not given,
  question on screen), the hook receives nothing, and a \<open>ReferenceError\<close> escapes the
  handler.
\<close>

theorem click_with_ga_unbound_label:
  "dispatch (Click IconThumbsUp)
     (mount (JStr ''goals'') True \<lparr> window_ga = JFunction, global_label = None, ga_calls = [] \<rparr>) =
   Some \<lparr> pageId = JStr ''goals'', isBrowser = True, slot = Some False, screen = question_view,
          env = \<lparr> window_ga = JFunction, global_label = None, ga_calls = [] \<rparr>,
          uncaught = [ReferenceError ''label is not defined''] \<rparr>"
  by (simp add: mount_def render_browser useState_def on_screen_question giveFeedback_def)

text \<open>
  C2. Claimed: with \<open>window.ga\<close> present a click sends exactly one event. With the hook
  present and no global binding of \<open>label\<close>, the handler throws while it builds the event
  object, before the hook is called: no event is sent, for either value.
\<close>

theorem giveFeedback_ga_unbound_label:
  "giveFeedback (JNum 1) \<lparr> window_ga = JFunction, global_label = None, ga_calls = [] \<rparr> =
     Inl (ReferenceError ''label is not defined'') \<and>
   giveFeedback (JNum 0) \<lparr> window_ga = JFunction, global_label = None, ga_calls = [] \<rparr> =
     Inl (ReferenceError ''label is not defined'')"
  by (simp add: giveFeedback_def)

section \<open>The widget: after feedback was given\<close>

lemma dispatch_given:
  assumes "isBrowser m" and "slot m = Some True" and "screen m = thanks_view"
    and "no_remount [a]" and "dispatch a m = Some m'"
  shows "isBrowser m' \<and> slot m' = Some True \<and> screen m' = thanks_view \<and>
         env m' = env m \<and> uncaught m' = uncaught m"
proof (cases a)
  case (Click c)
  with assms(3,5) show ?thesis by (simp add: on_screen_thanks)
next
  case (Rerender p)
  with assms(1,2,5) show ?thesis by (auto simp: render_browser useState_def)
next
  case (Remount p)
  with assms(4) show ?thesis by simp
qed

lemma no_remount_Cons: "no_remount (a # as) = (no_remount [a] \<and> no_remount as)"
  by (cases a) simp_all

lemma run_given:
  "isBrowser m \<Longrightarrow> slot m = Some True \<Longrightarrow> screen m = thanks_view \<Longrightarrow>
   no_remount as \<Longrightarrow> run as m = Some m' \<Longrightarrow>
   isBrowser m' \<and> slot m' = Some True \<and> screen m' = thanks_view \<and>
   env m' = env m \<and> uncaught m' = uncaught m"
proof (induction as arbitrary: m)
  case Nil
  then show ?case by simp
next
  case (Cons a as)
  from Cons.prems(4) have one: "no_remount [a]" and rest: "no_remount as"
    using no_remount_Cons [of a as] by simp_all
  from Cons.prems(5) obtain m1 where d: "dispatch a m = Some m1" and r: "run as m1 = Some m'"
    by (auto split: option.splits)
  have m1: "isBrowser m1 \<and> slot m1 = Some True \<and> screen m1 = thanks_view \<and>
            env m1 = env m \<and> uncaught m1 = uncaught m"
    using dispatch_given [OF Cons.prems(1-3) one d] .
  with Cons.IH [OF _ _ _ rest r] show ?case by simp
qed




section \<open>The widget: mounting\<close>

text \<open>
  C7. In a browser every mount, and every remount whatever the state before it, starts
  with the flag not given and renders the question with both controls, for every
  \<open>pageId\<close>; the browser side is left as it is.
\<close>

theorem mount_starts_not_given:
  assumes "isBrowser m"
  shows "ReaderFeedback p True None = (question_view, Some False) \<and>
         mount p True b =
           \<lparr> pageId = p, isBrowser = True, slot = Some False, screen = question_view,
             env = b, uncaught = [] \<rparr> \<and>
         dispatch (Remount p) m =
           Some (m\<lparr> pageId := p, slot := Some False, screen := question_view \<rparr>)"
  using assms by (simp add: mount_def render_browser ReaderFeedback_browser useState_def)

theorem mount_starts_not_given_witness:
  "dispatch (Remount (JStr ''pagination''))
     \<lparr> pageId = JStr ''goals'', isBrowser = True, slot = Some True, screen = thanks_view,
       env = \<lparr> window_ga = JUndefined, global_label = None, ga_calls = [] \<rparr>,
       uncaught = [] \<rparr> =
   Some \<lparr> pageId = JStr ''pagination'', isBrowser = True, slot = Some False,
          screen = question_view,
          env = \<lparr> window_ga = JUndefined, global_label = None, ga_calls = [] \<rparr>,
          uncaught = [] \<rparr>"
  using mount_starts_not_given [of
     "\<lparr> pageId = JStr ''goals'', isBrowser = True, slot = Some True, screen = thanks_view,
       env = \<lparr> window_ga = JUndefined, global_label = None, ga_calls = [] \<rparr>,
       uncaught = [] \<rparr>" "JStr ''pagination''"]
  by simp

text \<open>
  C8. Outside a browser the component returns \<open>null\<close> for every \<open>pageId\<close> and
  initialises no state: the slot is empty after the render. A mount there has an empty
  slot, no control on screen, so no handler to dispatch to, and the browser side (the
  hook's calls) is unchanged.
\<close>

theorem server_render_is_null:
  "ReaderFeedback p False s = (RenderNull, None) \<and>
   mount p False b =
     \<lparr> pageId = p, isBrowser = False, slot = None, screen = RenderNull, env = b,
       uncaught = [] \<rparr> \<and>
   on_screen c (screen (mount p False b)) = None \<and>
   dispatch (Click c) (mount p False b) = None"
  by (simp add: mount_def render_server ReaderFeedback_server)

section \<open>The widget: the prop is never read\<close>

lemma ReaderFeedback_pageId: "ReaderFeedback p ib s = ReaderFeedback q ib s"
  by (simp add: ReaderFeedback_def)

lemma observe_render:
  "isBrowser m1 = isBrowser m2 \<Longrightarrow> slot m1 = slot m2 \<Longrightarrow> env m1 = env m2 \<Longrightarrow>
   uncaught m1 = uncaught m2 \<Longrightarrow> observe (render m1) = observe (render m2)"
  using ReaderFeedback_pageId [of "pageId m1" "isBrowser m2" "slot m2" "pageId m2"]
  by (simp add: observe_def render_def split: prod.splits)

lemma observe_dispatch:
  assumes "observe m1 = observe m2"
  shows "map_option observe (dispatch (with_pageId p1 a) m1) =
         map_option observe (dispatch (with_pageId p2 a) m2)"
proof -
  from assms have eq: "isBrowser m1 = isBrowser m2" "slot m1 = slot m2"
    "screen m1 = screen m2" "env m1 = env m2" "uncaught m1 = uncaught m2"
    by (simp_all add: observe_def)
  show ?thesis
  proof (cases a)
    case (Click c)
    show ?thesis
    proof (cases "on_screen c (screen m2)")
      case None
      with Click eq show ?thesis by simp
    next
      case (Some v)
      show ?thesis
      proof (cases "giveFeedback v (env m2)")
        case (Inl e)
        with Click Some eq show ?thesis by (simp add: observe_def)
      next
        case (Inr r)
        obtain b s where r: "r = (b, s)" by (cases r)
        have "observe (render (m1\<lparr> env := b, slot := Some s \<rparr>)) =
              observe (render (m2\<lparr> env := b, slot := Some s \<rparr>))"
          by (rule observe_render) (simp_all add: eq)
        with Click Some Inr r eq show ?thesis by simp
      qed
    qed
  next
    case (Rerender q)
    have "observe (render (m1\<lparr> pageId := p1 \<rparr>)) = observe (render (m2\<lparr> pageId := p2 \<rparr>))"
      by (rule observe_render) (simp_all add: eq)
    with Rerender show ?thesis by simp
  next
    case (Remount q)
    have "observe (render (m1\<lparr> pageId := p1, slot := None \<rparr>)) =
          observe (render (m2\<lparr> pageId := p2, slot := None \<rparr>))"
      by (rule observe_render) (simp_all add: eq)
    with Remount show ?thesis by simp
  qed
qed

lemma observe_run:
  "observe m1 = observe m2 \<Longrightarrow>
   map_option observe (run (map (with_pageId p1) as) m1) =
   map_option observe (run (map (with_pageId p2) as) m2)"
proof (induction as arbitrary: m1 m2)
  case Nil
  then show ?case by simp
next
  case (Cons a as)
  have d: "map_option observe (dispatch (with_pageId p1 a) m1) =
           map_option observe (dispatch (with_pageId p2 a) m2)"
    using Cons.prems by (rule observe_dispatch)
  show ?case
  proof (cases "dispatch (with_pageId p1 a) m1")
    case None
    with d have "dispatch (with_pageId p2 a) m2 = None" by simp
    with None show ?thesis by simp
  next
    case (Some n1)
    with d obtain n2 where n2: "dispatch (with_pageId p2 a) m2 = Some n2"
      and o: "observe n1 = observe n2"
      by (cases "dispatch (with_pageId p2 a) m2") auto
    from Cons.IH [OF o] Some n2 show ?thesis by simp
  qed
qed

text \<open>
  C9. The widget does not depend on its \<open>pageId\<close> prop: two runs of the same user actions,
  one with the prop always \<open>p1\<close> and one with it always \<open>p2\<close>, either both stop at the same
  impossible action or end with the same screen, state slot, browser side (so the same
  events at the hook, label field included) and uncaught exceptions; a single render
  returns the same tree for both.
\<close>

theorem pageId_is_ignored:
  "ReaderFeedback p1 ib s = ReaderFeedback p2 ib s \<and>
   map_option observe (run (map (with_pageId p1) as) (mount p1 ib b)) =
   map_option observe (run (map (with_pageId p2) as) (mount p2 ib b))"
proof -
  have "observe (mount p1 ib b) = observe (mount p2 ib b)"
    unfolding mount_def by (rule observe_render) simp_all
  then show ?thesis
    using ReaderFeedback_pageId [of p1 ib s p2] by (simp add: observe_run)
qed


section \<open>The widget: the values that reach the hook\<close>


lemma env_render: "env (render m) = env m"
  by (simp add: render_def split: prod.splits)







section \<open>The widget: at most one call of the hook per mount\<close>

text \<open>
  A handler that returns has set the flag, so within one mount the hook is called at most
  once, whatever the sequence of clicks and renders.
\<close>

lemma giveFeedback_result:
  assumes "giveFeedback v b = Inr (b', s)"
  shows "s = True \<and> length (ga_calls b') \<le> Suc (length (ga_calls b))"
  using assms by (auto simp: giveFeedback_def split: option.splits if_splits)

lemma render_idem: "render (render m) = render m"
  by (cases "isBrowser m") (simp_all add: render_browser render_server useState_def)

lemma render_uncaught: "render (m\<lparr> uncaught := u \<rparr>) = (render m)\<lparr> uncaught := u \<rparr>"
  by (simp add: render_def split: prod.splits)

lemma rendered_question:
  assumes "render m = m" and "on_screen c (screen m) = Some v"
  shows "isBrowser m \<and> screen m = question_view"
proof (cases "isBrowser m")
  case False
  then have "screen (render m) = RenderNull" by (simp add: render_server)
  with assms show ?thesis by simp
next
  case True
  then have "screen (render m) = (if useState False (slot m) then thanks_view else question_view)"
    by (simp add: render_browser)
  with assms True show ?thesis by (auto simp: on_screen_thanks split: if_splits)
qed

lemma one_call_per_mount_aux:
  "render m = m \<Longrightarrow> no_remount as \<Longrightarrow> run as m = Some m' \<Longrightarrow>
   length (ga_calls (env m')) \<le> Suc (length (ga_calls (env m)))"
proof (induction as arbitrary: m)
  case Nil
  then show ?case by simp
next
  case (Cons a as)
  from Cons.prems(2) have one: "no_remount [a]" and rest: "no_remount as"
    using no_remount_Cons [of a as] by simp_all
  from Cons.prems(3) obtain m1 where d: "dispatch a m = Some m1" and r: "run as m1 = Some m'"
    by (auto split: option.splits)
  show ?case
  proof (cases a)
    case (Click c)
    with d obtain v where v: "on_screen c (screen m) = Some v"
      by (auto split: option.splits)
    from rendered_question [OF Cons.prems(1) v] have ib: "isBrowser m" by simp
    show ?thesis
    proof (cases "giveFeedback v (env m)")
      case (Inl e)
      with Click v d have m1: "m1 = m\<lparr> uncaught := uncaught m @ [e] \<rparr>" by simp
      have "render m1 = m1"
        using Cons.prems(1) by (simp add: m1 render_uncaught)
      from Cons.IH [OF this rest r] m1 show ?thesis by simp
    next
      case (Inr res)
      obtain b s where res: "res = (b, s)" by (cases res)
      from Inr res have g: "giveFeedback v (env m) = Inr (b, s)" by simp
      from giveFeedback_result [OF g] have s: "s = True"
        and len: "length (ga_calls b) \<le> Suc (length (ga_calls (env m)))" by simp_all
      from Click v Inr res d s have m1: "m1 = render (m\<lparr> env := b, slot := Some True \<rparr>)"
        by simp
      with ib have given: "isBrowser m1" "slot m1 = Some True" "screen m1 = thanks_view"
        and e1: "env m1 = b"
        by (simp_all add: render_browser useState_def)
      from run_given [OF given rest r] e1 have "env m' = b" by simp
      with len show ?thesis by simp
    qed
  next
    case (Rerender p)
    with d have m1: "m1 = render (m\<lparr> pageId := p \<rparr>)" by simp
    then have "render m1 = m1" by (simp add: render_idem)
    from Cons.IH [OF this rest r] m1 show ?thesis by (simp add: env_render)
  next
    case (Remount p)
    with one show ?thesis by simp
  qed
qed

lemma one_call_per_mount:
  assumes "no_remount as" and "run as (mount p ib b) = Some m"
  shows "length (ga_calls (env m)) \<le> Suc (length (ga_calls b))"
proof -
  have "render (mount p ib b) = mount p ib b"
    by (simp add: mount_def render_idem)
  from one_call_per_mount_aux [OF this assms] show ?thesis
    by (simp add: mount_def env_render)
qed

end
